theory Spec2Isabelle
  imports
    Complex_Main
    "HOL-Library.Char_ord"
    "HOL-Library.List_Lexorder"
    "HOL-Library.Product_Lexorder"
    "HOL-Library.Multiset"
begin

section \<open>Data model (types.ts)\<close>

text \<open>
  The records of \<^verbatim>\<open>types.ts\<close>. The fields \<^verbatim>\<open>id\<close> and \<^verbatim>\<open>method\<close> are called \<open>id_tx\<close> and
  \<open>method_tx\<close> here, since \<open>id\<close> is the identity function of HOL and the other a word of
  the proof language. A JavaScript \<^verbatim>\<open>number\<close> that holds money is a \<open>real\<close>
  (no arithmetic is done on it by the persistence layer); \<^verbatim>\<open>createdAt\<close>, \<^verbatim>\<open>version\<close> and
  \<^verbatim>\<open>timestamp\<close> hold integers (\<^verbatim>\<open>Date.now()\<close>). Strings are compared by code unit, which is
  how IndexedDB orders string keys.
\<close>

datatype PaymentMethod = DEBIT | CREDIT

record Transaction =
  id_tx :: string
  description :: string
  amount :: real
  method_tx :: PaymentMethod
  date :: string
  time :: string
  createdAt :: int

record MonthlyBudget =
  month :: string
  limit :: real

text \<open>
  \<^verbatim>\<open>BackupData\<close>. The value handed to \<^verbatim>\<open>importDatabase\<close> comes out of \<^verbatim>\<open>JSON.parse\<close>, so at run
  time either sequence may be absent or hold something that is not an array: \<open>Missing\<close> is
  \<^verbatim>\<open>undefined\<close>, \<open>NonArray b\<close> is any other value without \<^verbatim>\<open>forEach\<close>, with \<open>b\<close> its
  JavaScript truthiness, and \<open>Array xs\<close> is an array of well-formed records.
\<close>

datatype 'a jfield = Missing | NonArray bool | Array "'a list"

record BackupData =
  version :: int
  timestamp :: int
  transactions :: "Transaction jfield"
  budgets :: "MonthlyBudget jfield"

fun truthy :: "'a jfield \<Rightarrow> bool" where
  "truthy Missing = False"
| "truthy (NonArray b) = b"
| "truthy (Array xs) = True"

section \<open>The storage engine (IndexedDB)\<close>

text \<open>
  The database holds two object stores, created by \<^verbatim>\<open>onupgradeneeded\<close>: \<^verbatim>\<open>transactions\<close> with
  key path \<^verbatim>\<open>id\<close> and \<^verbatim>\<open>budgets\<close> with key path \<^verbatim>\<open>month\<close>. An object store is the list of its
  records in ascending key order, which is the order \<^verbatim>\<open>getAll\<close> returns.
\<close>

record db =
  tx_store :: "Transaction list"
  budget_store :: "MonthlyBudget list"

definition empty_db :: db where
  "empty_db = \<lparr>tx_store = [], budget_store = []\<rparr>"

datatype error =
    ConstraintError
  | EngineError string
  | TypeError
  | InvalidBackup
  | TransactionError

text \<open>
  \<open>ConstraintError\<close> is what \<^verbatim>\<open>add\<close> reports for a key that is already stored,
  \<open>EngineError\<close> any other error of the engine, \<open>TypeError\<close> the JavaScript exception of a
  call on \<^verbatim>\<open>undefined\<close>, \<open>InvalidBackup\<close> the \<^verbatim>\<open>Error\<close> thrown by the validation of
  \<^verbatim>\<open>handleFileChange\<close>, and \<open>TransactionError\<close> the value read from \<^verbatim>\<open>tx.error\<close> by a
  transaction-level \<^verbatim>\<open>onerror\<close> handler.
\<close>

datatype 'a promise = Resolved 'a | Rejected error | Pending

text \<open>
  An engine says which requests it fails: opening the database, and any request on a named
  object store. A failed request fires its error event and changes nothing; the transaction
  it belongs to is aborted.
\<close>

record engine =
  open_error :: "error option"
  request_error :: "string \<Rightarrow> error option"

definition healthy :: engine where
  "healthy = \<lparr>open_error = None, request_error = (\<lambda>_. None)\<rparr>"

definition STORE_TRANSACTIONS :: string where
  "STORE_TRANSACTIONS = ''transactions''"

definition STORE_BUDGETS :: string where
  "STORE_BUDGETS = ''budgets''"

definition openDB :: "engine \<Rightarrow> error + unit" where
  "openDB eng = (case open_error eng of Some e \<Rightarrow> Inl e | None \<Rightarrow> Inr ())"

definition request :: "engine \<Rightarrow> string \<Rightarrow> error + 'a \<Rightarrow> error + 'a" where
  "request eng name r = (case request_error eng name of Some e \<Rightarrow> Inl e | None \<Rightarrow> r)"

definition os_add :: "('r \<Rightarrow> string) \<Rightarrow> 'r \<Rightarrow> 'r list \<Rightarrow> error + 'r list" where
  "os_add key r rs =
     (if key r \<in> key ` set rs then Inl ConstraintError else Inr (insort_key key r rs))"

definition os_delete :: "('r \<Rightarrow> string) \<Rightarrow> string \<Rightarrow> 'r list \<Rightarrow> 'r list" where
  "os_delete key k rs = filter (\<lambda>x. key x \<noteq> k) rs"

definition os_put :: "('r \<Rightarrow> string) \<Rightarrow> 'r \<Rightarrow> 'r list \<Rightarrow> 'r list" where
  "os_put key r rs = insort_key key r (os_delete key (key r) rs)"

definition os_get :: "('r \<Rightarrow> string) \<Rightarrow> string \<Rightarrow> 'r list \<Rightarrow> 'r option" where
  "os_get key k rs = find (\<lambda>x. key x = k) rs"

text \<open>
  The index \<^verbatim>\<open>date\<close> of the transaction store: \<^verbatim>\<open>index.getAll(IDBKeyRange.bound(lo, hi))\<close>
  returns the records whose date lies in the closed range, ordered by date and then by
  primary key.
\<close>

definition index_getAll :: "string \<Rightarrow> string \<Rightarrow> Transaction list \<Rightarrow> Transaction list" where
  "index_getAll lo hi rs =
     sort_key (\<lambda>t. (date t, id_tx t)) (filter (\<lambda>t. lo \<le> date t \<and> date t \<le> hi) rs)"

section \<open>The record store (services/db.ts)\<close>

text \<open>
  Every operation first awaits \<^verbatim>\<open>openDB()\<close>, whose rejection rejects the operation, and
  then returns a promise that is settled by the event handlers the source installs. An
  operation that writes returns the database it leaves behind with its promise.
\<close>

definition addTransaction :: "engine \<Rightarrow> Transaction \<Rightarrow> db \<Rightarrow> unit promise \<times> db" where
  "addTransaction eng transaction s =
     (case openDB eng of
        Inl e \<Rightarrow> (Rejected e, s)
      | Inr _ \<Rightarrow>
          (case request eng STORE_TRANSACTIONS (os_add id_tx transaction (tx_store s)) of
             Inl e \<Rightarrow> (Rejected e, s)
           | Inr rs \<Rightarrow> (Resolved (), s\<lparr>tx_store := rs\<rparr>)))"

definition updateTransaction :: "engine \<Rightarrow> Transaction \<Rightarrow> db \<Rightarrow> unit promise \<times> db" where
  "updateTransaction eng transaction s =
     (case openDB eng of
        Inl e \<Rightarrow> (Rejected e, s)
      | Inr _ \<Rightarrow>
          (case request eng STORE_TRANSACTIONS (Inr (os_put id_tx transaction (tx_store s))) of
             Inl e \<Rightarrow> (Rejected e, s)
           | Inr rs \<Rightarrow> (Resolved (), s\<lparr>tx_store := rs\<rparr>)))"

definition deleteTransaction :: "engine \<Rightarrow> string \<Rightarrow> db \<Rightarrow> unit promise \<times> db" where
  "deleteTransaction eng k s =
     (case openDB eng of
        Inl e \<Rightarrow> (Rejected e, s)
      | Inr _ \<Rightarrow>
          (case request eng STORE_TRANSACTIONS (Inr (os_delete id_tx k (tx_store s))) of
             Inl e \<Rightarrow> (Rejected e, s)
           | Inr rs \<Rightarrow> (Resolved (), s\<lparr>tx_store := rs\<rparr>)))"

text \<open>
  The comparator of \<^verbatim>\<open>getTransactionsByMonth\<close>. \<^verbatim>\<open>s.localeCompare(t)\<close> compares by the
  host's collation. It is taken as the comparison by code unit, with which the collation
  agrees on two strings of the format \<^verbatim>\<open>YYYY-MM-DD\<close> and on two of the format \<^verbatim>\<open>HH:MM\<close>
  (\<open>date_format\<close> and \<open>time_format\<close> below); on other strings, such as \<^verbatim>\<open>1:00\<close> and
  \<^verbatim>\<open>10:00\<close>, it need not, so what is proved of the order of the result is proved of
  records in these formats. An empty string is falsy, so \<^verbatim>\<open>a.time && b.time\<close> asks
  for both times to be non-empty.
\<close>

definition localeCompare :: "string \<Rightarrow> string \<Rightarrow> int" where
  "localeCompare s t = (if s < t then - 1 else if s = t then 0 else 1)"

definition compareTx :: "Transaction \<Rightarrow> Transaction \<Rightarrow> int" where
  "compareTx a b =
     (if date a \<noteq> date b then localeCompare (date b) (date a)
      else if time a \<noteq> [] \<and> time b \<noteq> [] \<and> time a \<noteq> time b
        then localeCompare (time b) (time a)
      else createdAt b - createdAt a)"

text \<open>
  \<^verbatim>\<open>Array.prototype.sort\<close> is stable. It is modelled by the stable insertion sort: on a
  comparator that is a total preorder every stable sort returns the same list; on any
  other comparator the language leaves the order to the implementation, and the list of
  the model need not be the list of the engine. What is proved of the order of the result
  is proved where the comparator is a total preorder.
\<close>

fun insert_by :: "('a \<Rightarrow> 'a \<Rightarrow> int) \<Rightarrow> 'a \<Rightarrow> 'a list \<Rightarrow> 'a list" where
  "insert_by cmp x [] = [x]"
| "insert_by cmp x (y # ys) = (if cmp x y \<le> 0 then x # y # ys else y # insert_by cmp x ys)"

fun sort_by :: "('a \<Rightarrow> 'a \<Rightarrow> int) \<Rightarrow> 'a list \<Rightarrow> 'a list" where
  "sort_by cmp [] = []"
| "sort_by cmp (x # xs) = insert_by cmp x (sort_by cmp xs)"

definition getTransactionsByMonth :: "engine \<Rightarrow> string \<Rightarrow> db \<Rightarrow> Transaction list promise" where
  "getTransactionsByMonth eng m s =
     (case openDB eng of
        Inl e \<Rightarrow> Rejected e
      | Inr _ \<Rightarrow>
          (let start = m @ ''-01''; end = m @ ''-31'' in
           case request eng STORE_TRANSACTIONS (Inr (index_getAll start end (tx_store s))) of
             Inl e \<Rightarrow> Rejected e
           | Inr results \<Rightarrow> Resolved (sort_by compareTx results)))"

definition setMonthlyBudget :: "engine \<Rightarrow> MonthlyBudget \<Rightarrow> db \<Rightarrow> unit promise \<times> db" where
  "setMonthlyBudget eng budget s =
     (case openDB eng of
        Inl e \<Rightarrow> (Rejected e, s)
      | Inr _ \<Rightarrow>
          (case request eng STORE_BUDGETS (Inr (os_put month budget (budget_store s))) of
             Inl e \<Rightarrow> (Rejected e, s)
           | Inr rs \<Rightarrow> (Resolved (), s\<lparr>budget_store := rs\<rparr>)))"

definition getMonthlyBudget :: "engine \<Rightarrow> string \<Rightarrow> db \<Rightarrow> real promise" where
  "getMonthlyBudget eng m s =
     (case openDB eng of
        Inl e \<Rightarrow> Rejected e
      | Inr _ \<Rightarrow>
          (case request eng STORE_BUDGETS (Inr (os_get month m (budget_store s))) of
             Inl e \<Rightarrow> Rejected e
           | Inr data \<Rightarrow> Resolved (case data of Some b \<Rightarrow> limit b | None \<Rightarrow> 0)))"

subsection \<open>Backup and restore\<close>

text \<open>
  \<^verbatim>\<open>clearAllData\<close> clears both stores in one transaction and settles on the transaction's
  events: a failed request aborts the transaction, so neither store changes, and
  \<^verbatim>\<open>tx.onerror\<close> rejects with \<^verbatim>\<open>tx.error\<close>.
\<close>

definition clearAllData :: "engine \<Rightarrow> db \<Rightarrow> unit promise \<times> db" where
  "clearAllData eng s =
     (case openDB eng of
        Inl e \<Rightarrow> (Rejected e, s)
      | Inr _ \<Rightarrow>
          (case request eng STORE_TRANSACTIONS (Inr ([] :: Transaction list)) of
             Inl e \<Rightarrow> (Rejected TransactionError, s)
           | Inr ts \<Rightarrow>
               (case request eng STORE_BUDGETS (Inr ([] :: MonthlyBudget list)) of
                  Inl e \<Rightarrow> (Rejected TransactionError, s)
                | Inr bs \<Rightarrow> (Resolved (), \<lparr>tx_store = ts, budget_store = bs\<rparr>))))"

text \<open>
  \<^verbatim>\<open>getStoreData\<close> builds its promise from \<^verbatim>\<open>resolve\<close> alone and installs only
  \<^verbatim>\<open>onsuccess\<close>: when the \<^verbatim>\<open>getAll\<close> request fails, nothing settles the promise.
\<close>

definition getStoreData :: "engine \<Rightarrow> string \<Rightarrow> 'r list \<Rightarrow> 'r list promise" where
  "getStoreData eng storeName rs =
     (case request eng storeName (Inr rs) of
        Inl e \<Rightarrow> Pending
      | Inr result \<Rightarrow> Resolved result)"

text \<open>\<^verbatim>\<open>Promise.all\<close> of two promises.\<close>

fun promise_all :: "'a promise \<Rightarrow> 'b promise \<Rightarrow> ('a \<times> 'b) promise" where
  "promise_all (Rejected e) q = Rejected e"
| "promise_all p (Rejected e) = Rejected e"
| "promise_all (Resolved a) (Resolved b) = Resolved (a, b)"
| "promise_all p q = Pending"

definition exportDatabase :: "engine \<Rightarrow> int \<Rightarrow> db \<Rightarrow> BackupData promise" where
  "exportDatabase eng now s =
     (case openDB eng of
        Inl e \<Rightarrow> Rejected e
      | Inr _ \<Rightarrow>
          (case promise_all (getStoreData eng STORE_TRANSACTIONS (tx_store s))
                            (getStoreData eng STORE_BUDGETS (budget_store s)) of
             Rejected e \<Rightarrow> Rejected e
           | Pending \<Rightarrow> Pending
           | Resolved (ts, bs) \<Rightarrow>
               Resolved \<lparr>version = 1, timestamp = now,
                         transactions = Array ts, budgets = Array bs\<rparr>))"

text \<open>
  The \<^verbatim>\<open>forEach\<close> loops of \<^verbatim>\<open>importDatabase\<close> queue one \<^verbatim>\<open>add\<close> request per record, and the
  requests run in that order inside one transaction; the first that fails aborts it.
\<close>

fun add_all :: "engine \<Rightarrow> string \<Rightarrow> ('r \<Rightarrow> string) \<Rightarrow> 'r list \<Rightarrow> 'r list \<Rightarrow> error + 'r list" where
  "add_all eng name key [] rs = Inr rs"
| "add_all eng name key (x # xs) rs =
     (case request eng name (os_add key x rs) of
        Inl e \<Rightarrow> Inl e
      | Inr rs' \<Rightarrow> add_all eng name key xs rs')"

text \<open>
  \<^verbatim>\<open>importDatabase\<close> awaits \<^verbatim>\<open>clearAllData()\<close>, which commits, before it opens the transaction
  of the inserts. Inside the promise's executor a \<^verbatim>\<open>forEach\<close> on a value that is not an array
  throws \<^verbatim>\<open>TypeError\<close>, which rejects the promise; the requests queued before the throw stay
  in the transaction, which commits them unless one of them fails. A failed request aborts
  the transaction of the inserts (not the clearing before it) and reaches \<^verbatim>\<open>tx.onerror\<close>.
\<close>

definition importDatabase :: "engine \<Rightarrow> BackupData \<Rightarrow> db \<Rightarrow> unit promise \<times> db" where
  "importDatabase eng data s =
     (case clearAllData eng s of
        (Rejected e, s1) \<Rightarrow> (Rejected e, s1)
      | (Pending, s1) \<Rightarrow> (Pending, s1)
      | (Resolved _, s1) \<Rightarrow>
          (case openDB eng of
             Inl e \<Rightarrow> (Rejected e, s1)
           | Inr _ \<Rightarrow>
               (case transactions data of
                  Array ts \<Rightarrow>
                    (case add_all eng STORE_TRANSACTIONS id_tx ts (tx_store s1) of
                       Inl e \<Rightarrow>
                         (case budgets data of
                            Array bs \<Rightarrow> (Rejected TransactionError, s1)
                          | _ \<Rightarrow> (Rejected TypeError, s1))
                     | Inr ts' \<Rightarrow>
                         (case budgets data of
                            Array bs \<Rightarrow>
                              (case add_all eng STORE_BUDGETS month bs (budget_store s1) of
                                 Inl e \<Rightarrow> (Rejected TransactionError, s1)
                               | Inr bs' \<Rightarrow>
                                   (Resolved (), \<lparr>tx_store = ts', budget_store = bs'\<rparr>))
                          | _ \<Rightarrow> (Rejected TypeError, s1\<lparr>tx_store := ts'\<rparr>)))
                | _ \<Rightarrow> (Rejected TypeError, s1))))"

section \<open>The callers (App.tsx, components/Summary.tsx)\<close>

text \<open>
  The \<^verbatim>\<open>onload\<close> handler of \<^verbatim>\<open>handleFileChange\<close>, from the parsed file on: the validation
  throws before \<^verbatim>\<open>importDatabase\<close> is called, and the \<^verbatim>\<open>catch\<close> block reports any error.
\<close>

datatype restore = Restored | RestoreFailed error | RestoreHung

definition handleFileChange :: "engine \<Rightarrow> BackupData \<Rightarrow> db \<Rightarrow> restore \<times> db" where
  "handleFileChange eng data s =
     (if \<not> truthy (transactions data) \<or> \<not> truthy (budgets data)
      then (RestoreFailed InvalidBackup, s)
      else (case importDatabase eng data s of
              (Resolved _, s') \<Rightarrow> (Restored, s')
            | (Rejected e, s') \<Rightarrow> (RestoreFailed e, s')
            | (Pending, s') \<Rightarrow> (RestoreHung, s')))"

definition handleUpdateLimit :: "engine \<Rightarrow> string \<Rightarrow> real \<Rightarrow> db \<Rightarrow> unit promise \<times> db" where
  "handleUpdateLimit eng currentMonth newLimit s =
     setMonthlyBudget eng \<lparr>month = currentMonth, limit = newLimit\<rparr> s"

text \<open>
  \<^verbatim>\<open>handleSave\<close> of the summary, from the value of \<^verbatim>\<open>parseFloat\<close> on: \<open>NaN\<close> or a number.
  The result \<open>None\<close> says that \<^verbatim>\<open>onUpdateLimit\<close> was not called: the handler only leaves the
  editing mode, and raises nothing.
\<close>

datatype number = NaN | Num real

definition handleSave :: "engine \<Rightarrow> string \<Rightarrow> number \<Rightarrow> db \<Rightarrow> unit promise option \<times> db" where
  "handleSave eng currentMonth val s =
     (case val of
        NaN \<Rightarrow> (None, s)
      | Num v \<Rightarrow>
          (if v \<ge> 0
           then (case handleUpdateLimit eng currentMonth v s of (p, s') \<Rightarrow> (Some p, s'))
           else (None, s)))"

section \<open>Orderings and sample data used in the statements\<close>

text \<open>
  The order of the month query, newest first: by date descending, then by time descending,
  the time being compared only when both records have a non-empty time, then by creation
  stamp descending.
\<close>

definition newest_first_skipping :: "Transaction \<Rightarrow> Transaction \<Rightarrow> bool" where
  "newest_first_skipping a b \<longleftrightarrow>
     date b < date a
     \<or> (date a = date b
        \<and> (if time a \<noteq> [] \<and> time b \<noteq> []
            then time b < time a \<or> (time a = time b \<and> createdAt b \<le> createdAt a)
            else createdAt b \<le> createdAt a))"

definition in_month :: "string \<Rightarrow> Transaction \<Rightarrow> bool" where
  "in_month m t \<longleftrightarrow> m @ ''-01'' \<le> date t \<and> date t \<le> m @ ''-31''"

text \<open>
  The formats that \<^verbatim>\<open>types.ts\<close> gives for the two strings of a transaction:
  \<^verbatim>\<open>YYYY-MM-DD\<close> for the date and \<^verbatim>\<open>HH:MM\<close> for the time. A month is formatted when every
  stored record of it has such a date and a time that is empty or of that format; its days
  are uniform when no two of its records of one date differ in having a time.
\<close>

definition is_digit :: "char \<Rightarrow> bool" where
  "is_digit c \<longleftrightarrow> CHR ''0'' \<le> c \<and> c \<le> CHR ''9''"

fun date_format :: "string \<Rightarrow> bool" where
  "date_format [y1, y2, y3, y4, p, m1, m2, q, d1, d2] \<longleftrightarrow>
     is_digit y1 \<and> is_digit y2 \<and> is_digit y3 \<and> is_digit y4 \<and> p = CHR ''-''
     \<and> is_digit m1 \<and> is_digit m2 \<and> q = CHR ''-'' \<and> is_digit d1 \<and> is_digit d2"
| "date_format _ \<longleftrightarrow> False"

fun time_format :: "string \<Rightarrow> bool" where
  "time_format [h1, h2, p, m1, m2] \<longleftrightarrow>
     is_digit h1 \<and> is_digit h2 \<and> p = CHR '':'' \<and> is_digit m1 \<and> is_digit m2"
| "time_format _ \<longleftrightarrow> False"

definition formatted_month :: "string \<Rightarrow> Transaction list \<Rightarrow> bool" where
  "formatted_month m rs \<longleftrightarrow>
     (\<forall>t \<in> set rs. in_month m t \<longrightarrow>
        date_format (date t) \<and> (time t = [] \<or> time_format (time t)))"

definition uniform_days :: "string \<Rightarrow> Transaction list \<Rightarrow> bool" where
  "uniform_days m rs \<longleftrightarrow>
     (\<forall>t \<in> set rs. \<forall>u \<in> set rs.
        in_month m t \<and> in_month m u \<and> date t = date u \<longrightarrow> (time t = [] \<longleftrightarrow> time u = []))"

definition sample_tx :: "string \<Rightarrow> string \<Rightarrow> string \<Rightarrow> int \<Rightarrow> Transaction" where
  "sample_tx k d t c =
     \<lparr>id_tx = k, description = ''mercado'', amount = 25, method_tx = DEBIT,
      date = d, time = t, createdAt = c\<rparr>"

definition tx_A :: Transaction where
  "tx_A = sample_tx ''a'' ''2024-05-10'' ''09:00'' 100"

definition tx_B :: Transaction where
  "tx_B = sample_tx ''b'' ''2024-05-10'' ''09:00'' 200"

definition tx_C :: Transaction where
  "tx_C = sample_tx ''c'' ''2024-05-11'' ''08:00'' 1"

definition budget_may :: MonthlyBudget where
  "budget_may = \<lparr>month = ''2024-05'', limit = 1500\<rparr>"

definition sample_db :: db where
  "sample_db = \<lparr>tx_store = [tx_A, tx_B, tx_C], budget_store = [budget_may]\<rparr>"

text \<open>
  Three records of one day of which one has no time, and two records on month boundaries.
\<close>

definition tx_late :: Transaction where
  "tx_late = sample_tx ''y'' ''2024-05-10'' ''10:00'' 1"

definition tx_untimed :: Transaction where
  "tx_untimed = sample_tx ''x'' ''2024-05-10'' [] 2"

definition tx_early :: Transaction where
  "tx_early = sample_tx ''z'' ''2024-05-10'' ''09:00'' 3"

definition untimed_db :: db where
  "untimed_db = \<lparr>tx_store = [tx_untimed, tx_late, tx_early], budget_store = []\<rparr>"

definition tx_leap :: Transaction where
  "tx_leap = sample_tx ''l'' ''2024-02-29'' ''18:30'' 7"

definition tx_april :: Transaction where
  "tx_april = sample_tx ''p'' ''2024-04-30'' ''07:15'' 8"

definition boundary_db :: db where
  "boundary_db = \<lparr>tx_store = [tx_leap, tx_april], budget_store = []\<rparr>"





section \<open>Facts about the engine and the object stores\<close>

lemma openDB_healthy: "openDB healthy = Inr ()"
  by (simp add: openDB_def healthy_def)

lemma request_healthy: "request healthy name r = r"
  by (simp add: request_def healthy_def)

lemma os_get_None: "k \<notin> key ` set rs \<Longrightarrow> os_get key k rs = None"
  by (induction rs) (auto simp: os_get_def)

lemma os_get_Some:
  "distinct (map key rs) \<Longrightarrow> b \<in> set rs \<Longrightarrow> os_get key (key b) rs = Some b"
  by (induction rs) (auto simp: os_get_def)

lemma set_os_put: "set (os_put key r rs) = insert r {x \<in> set rs. key x \<noteq> key r}"
  by (auto simp: os_put_def os_delete_def set_insort_key)

lemma add_all_healthy:
  "distinct (map key xs) \<Longrightarrow> key ` set xs \<inter> key ` set rs = {} \<Longrightarrow>
   \<exists>rs'. add_all healthy name key xs rs = Inr rs' \<and> mset rs' = mset xs + mset rs"
proof (induction xs arbitrary: rs)
  case Nil
  then show ?case by simp
next
  case (Cons x xs)
  have fresh: "key x \<notin> key ` set rs"
    using Cons.prems(2) by auto
  have disj: "key ` set xs \<inter> key ` set (insort_key key x rs) = {}"
    using Cons.prems by (auto simp: set_insort_key)
  from Cons.IH [OF _ disj] Cons.prems(1)
  obtain rs' where "add_all healthy name key xs (insort_key key x rs) = Inr rs'"
    and "mset rs' = mset xs + mset (insort_key key x rs)"
    by auto
  with fresh show ?case
    by (simp add: request_healthy os_add_def)
qed

lemma clearAllData_healthy: "clearAllData healthy s = (Resolved (), empty_db)"
  by (simp add: clearAllData_def openDB_healthy request_healthy empty_db_def)

lemma importDatabase_healthy_arrays:
  assumes "transactions data = Array ts" and "budgets data = Array bs"
    and "distinct (map id_tx ts)" and "distinct (map month bs)"
  shows "\<exists>s'. importDatabase healthy data s = (Resolved (), s')
           \<and> mset (tx_store s') = mset ts \<and> mset (budget_store s') = mset bs"
proof -
  obtain ts' where ts': "add_all healthy STORE_TRANSACTIONS id_tx ts [] = Inr ts'"
      "mset ts' = mset ts"
    using add_all_healthy [OF assms(3), of "[]" STORE_TRANSACTIONS] by auto
  obtain bs' where bs': "add_all healthy STORE_BUDGETS month bs [] = Inr bs'"
      "mset bs' = mset bs"
    using add_all_healthy [OF assms(4), of "[]" STORE_BUDGETS] by auto
  show ?thesis
    using assms(1,2) ts' bs'
    by (simp add: importDatabase_def clearAllData_healthy openDB_healthy empty_db_def)
qed

lemma exportDatabase_healthy:
  "exportDatabase healthy now s =
     Resolved \<lparr>version = 1, timestamp = now,
               transactions = Array (tx_store s), budgets = Array (budget_store s)\<rparr>"
  by (simp add: exportDatabase_def openDB_healthy getStoreData_def request_healthy)

lemma sample_db_keys:
  "distinct (map id_tx (tx_store sample_db))" "distinct (map month (budget_store sample_db))"
  by (simp_all add: sample_db_def tx_A_def tx_B_def tx_C_def sample_tx_def)

lemma setMonthlyBudget_healthy:
  "setMonthlyBudget healthy b s = (Resolved (), s\<lparr>budget_store := os_put month b (budget_store s)\<rparr>)"
  by (simp add: setMonthlyBudget_def openDB_healthy request_healthy)

lemma getTransactionsByMonth_request_error:
  "open_error eng = None \<Longrightarrow> request_error eng STORE_TRANSACTIONS = Some e \<Longrightarrow>
   getTransactionsByMonth eng m s = Rejected e"
  by (simp add: getTransactionsByMonth_def openDB_def request_def)

section \<open>Facts about the sort and the month query\<close>

lemma mset_insert_by: "mset (insert_by cmp x xs) = add_mset x (mset xs)"
  by (induction xs) auto

lemma mset_sort_by: "mset (sort_by cmp xs) = mset xs"
  by (induction xs) (auto simp: mset_insert_by)







lemma mset_index_getAll:
  "mset (index_getAll lo hi rs) = filter_mset (\<lambda>t. lo \<le> date t \<and> date t \<le> hi) (mset rs)"
  by (simp add: index_getAll_def)

lemma getTransactionsByMonth_healthy:
  "getTransactionsByMonth healthy m s =
     Resolved (sort_by compareTx (index_getAll (m @ ''-01'') (m @ ''-31'') (tx_store s)))"
  by (simp add: getTransactionsByMonth_def openDB_healthy request_healthy)

lemma mset_month:
  "mset (sort_by compareTx (index_getAll (m @ ''-01'') (m @ ''-31'') rs))
     = filter_mset (in_month m) (mset rs)"
  by (simp add: mset_sort_by mset_index_getAll in_month_def [abs_def])










lemma perm3_cycle:
  assumes "mset xs = {#a, b, c#}" and "\<not> R a b" and "\<not> R b c" and "\<not> R c a"
  shows "\<not> sorted_wrt R xs"
proof
  assume sorted: "sorted_wrt R xs"
  have "length xs = 3"
    using assms(1) [THEN arg_cong, of size] by simp
  then obtain x y z where xs: "xs = [x, y, z]"
    by (auto simp: length_Suc_conv numeral_3_eq_3)
  have R: "R x y" "R x z" "R y z"
    using sorted by (simp_all add: xs)
  have eq: "{#x, y, z#} = {#a, b, c#}"
    using assms(1) by (simp add: xs)
  show False
    using eq R assms(2-4)
    by (auto simp: add_eq_conv_ex)
qed





section \<open>Backup round trip\<close>

text \<open>
  C1. On a healthy engine, for every store whose transactions have distinct ids and whose
  budgets have distinct months, \<open>exportDatabase\<close> returns a snapshot, and \<open>importDatabase\<close>
  of that snapshot, into any store, succeeds and leaves a store with the same transaction
  records and the same budget records as the exported one.
\<close>

theorem export_import_roundtrip:
  assumes "distinct (map id_tx (tx_store s))" and "distinct (map month (budget_store s))"
  shows "\<exists>snapshot s'. exportDatabase healthy now s = Resolved snapshot
           \<and> importDatabase healthy snapshot s0 = (Resolved (), s')
           \<and> mset (tx_store s') = mset (tx_store s)
           \<and> mset (budget_store s') = mset (budget_store s)"
proof -
  let ?snap = "\<lparr>version = 1, timestamp = now,
                transactions = Array (tx_store s), budgets = Array (budget_store s)\<rparr>"
  have "\<exists>s'. importDatabase healthy ?snap s0 = (Resolved (), s')
           \<and> mset (tx_store s') = mset (tx_store s)
           \<and> mset (budget_store s') = mset (budget_store s)"
    using assms by (intro importDatabase_healthy_arrays) simp_all
  then show ?thesis
    by (simp add: exportDatabase_healthy)
qed

theorem export_import_roundtrip_witness:
  "distinct (map id_tx (tx_store sample_db)) \<and> distinct (map month (budget_store sample_db))
   \<and> (\<exists>snapshot s'. exportDatabase healthy 1714521600000 sample_db = Resolved snapshot
           \<and> importDatabase healthy snapshot sample_db = (Resolved (), s')
           \<and> mset (tx_store s') = mset (tx_store sample_db)
           \<and> mset (budget_store s') = mset (budget_store sample_db))"
  using export_import_roundtrip [OF sample_db_keys, of 1714521600000 sample_db] sample_db_keys
  by blast

section \<open>Import replaces the store\<close>

text \<open>
  C5. On a healthy engine, for every store and every snapshot whose two sequences are
  present with distinct keys, \<open>importDatabase\<close> succeeds and the store it leaves holds
  exactly the records of the snapshot; it is the store the same import leaves from the
  empty database, so no earlier record survives.
\<close>

theorem import_replaces:
  assumes "transactions data = Array ts" and "budgets data = Array bs"
    and "distinct (map id_tx ts)" and "distinct (map month bs)"
  shows "\<exists>s'. importDatabase healthy data s = (Resolved (), s')
           \<and> mset (tx_store s') = mset ts \<and> mset (budget_store s') = mset bs
           \<and> importDatabase healthy data empty_db = (Resolved (), s')"
proof -
  have same: "importDatabase healthy data s = importDatabase healthy data empty_db"
    by (simp add: importDatabase_def clearAllData_healthy)
  from importDatabase_healthy_arrays [OF assms, of s] same show ?thesis
    by auto
qed

theorem import_replaces_witness:
  "\<exists>s'. importDatabase healthy
           \<lparr>version = 1, timestamp = 0, transactions = Array [tx_C], budgets = Array []\<rparr>
           sample_db = (Resolved (), s')
     \<and> mset (tx_store s') = mset [tx_C] \<and> mset (budget_store s') = mset []
     \<and> importDatabase healthy
           \<lparr>version = 1, timestamp = 0, transactions = Array [tx_C], budgets = Array []\<rparr>
           empty_db = (Resolved (), s')"
  using import_replaces [of "\<lparr>version = 1, timestamp = 0, transactions = Array [tx_C],
    budgets = Array []\<rparr>" "[tx_C]" "[]" sample_db]
  by simp

text \<open>
  The inserts are adds, not puts: a snapshot that repeats an id is not merged. The second
  add fails, the transaction of the inserts is aborted, and the store stays cleared.
\<close>

lemma importDatabase_repeated_id:
  "importDatabase healthy
      \<lparr>version = 1, timestamp = 0, transactions = Array [tx_A, tx_A\<lparr>amount := 30\<rparr>],
       budgets = Array []\<rparr> sample_db
     = (Rejected TransactionError, empty_db)"
  by (simp add: importDatabase_def clearAllData_healthy openDB_healthy request_healthy
      os_add_def empty_db_def tx_A_def sample_tx_def)

section \<open>Uniqueness on add\<close>

text \<open>
  C6. On a healthy engine, \<open>addTransaction\<close> of a record whose id is already stored is
  rejected with the engine's \<open>ConstraintError\<close> (the duplicate-key error) and leaves the
  database as it was; when the id is not stored it resolves and the store holds the new
  record besides the old ones.
\<close>

theorem addTransaction_unique:
  "(id_tx t \<in> id_tx ` set (tx_store s) \<longrightarrow>
      addTransaction healthy t s = (Rejected ConstraintError, s))
   \<and> (id_tx t \<notin> id_tx ` set (tx_store s) \<longrightarrow>
      (\<exists>s'. addTransaction healthy t s = (Resolved (), s')
         \<and> mset (tx_store s') = add_mset t (mset (tx_store s))
         \<and> budget_store s' = budget_store s))"
  by (simp add: addTransaction_def openDB_healthy request_healthy os_add_def)

theorem addTransaction_unique_witness:
  "id_tx (tx_A\<lparr>amount := 30\<rparr>) \<in> id_tx ` set (tx_store sample_db)
   \<and> addTransaction healthy (tx_A\<lparr>amount := 30\<rparr>) sample_db
       = (Rejected ConstraintError, sample_db)
   \<and> id_tx tx_A \<notin> id_tx ` set (tx_store empty_db)
   \<and> (\<exists>s'. addTransaction healthy tx_A empty_db = (Resolved (), s')
         \<and> mset (tx_store s') = add_mset tx_A (mset (tx_store empty_db))
         \<and> budget_store s' = budget_store empty_db)"
proof -
  have dup: "id_tx (tx_A\<lparr>amount := 30\<rparr>) \<in> id_tx ` set (tx_store sample_db)"
    by (simp add: sample_db_def tx_A_def tx_B_def tx_C_def sample_tx_def)
  have fresh: "id_tx tx_A \<notin> id_tx ` set (tx_store empty_db)"
    by (simp add: empty_db_def)
  show ?thesis
    using dup fresh addTransaction_unique [of "tx_A\<lparr>amount := 30\<rparr>" sample_db]
      addTransaction_unique [of tx_A empty_db]
    by blast
qed

section \<open>Budget default\<close>

text \<open>
  C7. On a healthy engine, \<open>getMonthlyBudget\<close> resolves to 0 for every month without a
  stored budget record, in particular for 2099-01 on the empty database, and to the limit of
  the record for a month that has one.
\<close>

theorem getMonthlyBudget_default:
  "(m \<notin> month ` set (budget_store s) \<longrightarrow> getMonthlyBudget healthy m s = Resolved 0)
   \<and> (b \<in> set (budget_store s) \<and> distinct (map month (budget_store s)) \<longrightarrow>
        getMonthlyBudget healthy (month b) s = Resolved (limit b))
   \<and> getMonthlyBudget healthy ''2099-01'' empty_db = Resolved 0"
  by (simp add: getMonthlyBudget_def openDB_healthy request_healthy os_get_None os_get_Some
      empty_db_def)

theorem getMonthlyBudget_default_witness:
  "''2024-06'' \<notin> month ` set (budget_store sample_db)
   \<and> getMonthlyBudget healthy ''2024-06'' sample_db = Resolved 0
   \<and> budget_may \<in> set (budget_store sample_db)
   \<and> distinct (map month (budget_store sample_db))
   \<and> getMonthlyBudget healthy (month budget_may) sample_db = Resolved 1500"
proof -
  have absent: "''2024-06'' \<notin> month ` set (budget_store sample_db)"
    by (simp add: sample_db_def budget_may_def)
  have stored: "budget_may \<in> set (budget_store sample_db)"
    by (simp add: sample_db_def)
  have lim: "limit budget_may = 1500"
    by (simp add: budget_may_def)
  show ?thesis
    using absent stored lim sample_db_keys(2)
      getMonthlyBudget_default [of "''2024-06''" sample_db budget_may]
    by simp
qed

section \<open>Operations on one kind leave the other kind alone\<close>

text \<open>
  C10. For every engine, store and argument, \<open>addTransaction\<close>, \<open>updateTransaction\<close> and
  \<open>deleteTransaction\<close> leave the stored budget records unchanged, and \<open>setMonthlyBudget\<close>
  leaves the stored transaction records unchanged.
\<close>

theorem cross_kind_frame:
  "budget_store (snd (addTransaction eng t s)) = budget_store s
   \<and> budget_store (snd (updateTransaction eng t s)) = budget_store s
   \<and> budget_store (snd (deleteTransaction eng k s)) = budget_store s
   \<and> tx_store (snd (setMonthlyBudget eng b s)) = tx_store s"
  by (simp add: addTransaction_def updateTransaction_def deleteTransaction_def
      setMonthlyBudget_def split: sum.splits)

section \<open>Validation of a backup file\<close>

text \<open>
  C2, as the code has it. The validation is in \<open>handleFileChange\<close>, ahead of the call of
  \<open>importDatabase\<close>: for every engine and every store, a parsed file whose \<^verbatim>\<open>transactions\<close>
  or \<^verbatim>\<open>budgets\<close> field is missing fails with the invalid-backup error, and the store is
  the one before.
\<close>

theorem restore_validates:
  "transactions data = Missing \<or> budgets data = Missing \<longrightarrow>
     handleFileChange eng data s = (RestoreFailed InvalidBackup, s)"
  by (auto simp: handleFileChange_def)

theorem restore_validates_witness:
  "transactions \<lparr>version = 0, timestamp = 0, transactions = Missing, budgets = Missing\<rparr> = Missing
   \<and> handleFileChange healthy
        \<lparr>version = 0, timestamp = 0, transactions = Missing, budgets = Missing\<rparr> sample_db
       = (RestoreFailed InvalidBackup, sample_db)"
  using restore_validates [of "\<lparr>version = 0, timestamp = 0, transactions = Missing,
    budgets = Missing\<rparr>" healthy sample_db]
  by simp

text \<open>
  C2 does not hold of \<open>importDatabase\<close> itself, which does not look at the snapshot before
  it clears: given the empty object it empties the store and then rejects with
  \<open>TypeError\<close>.
\<close>

theorem importDatabase_counterexample:
  "importDatabase healthy
      \<lparr>version = 0, timestamp = 0, transactions = Missing, budgets = Missing\<rparr> sample_db
     = (Rejected TypeError, empty_db)
   \<and> tx_store sample_db \<noteq> tx_store empty_db"
  by (simp add: importDatabase_def clearAllData_healthy openDB_healthy sample_db_def empty_db_def)

section \<open>Order of the month query\<close>





lemma untimed_cycle:
  "mset xs = {#tx_late, tx_untimed, tx_early#} \<Longrightarrow> \<not> sorted_wrt newest_first_skipping xs"
proof (erule perm3_cycle)
  show "\<not> newest_first_skipping tx_late tx_untimed"
    "\<not> newest_first_skipping tx_untimed tx_early"
    "\<not> newest_first_skipping tx_early tx_late"
    by (simp_all add: newest_first_skipping_def tx_late_def tx_untimed_def tx_early_def
        sample_tx_def)
qed

lemma untimed_db_mixed:
  "formatted_month ''2024-05'' (tx_store untimed_db)
   \<and> \<not> uniform_days ''2024-05'' (tx_store untimed_db)"
  by (simp add: formatted_month_def uniform_days_def untimed_db_def in_month_def is_digit_def
      tx_late_def tx_untimed_def tx_early_def sample_tx_def)

section \<open>Membership of the month query\<close>

text \<open>
  C4. On a healthy engine, for every store and month token \<open>m\<close>, \<open>getTransactionsByMonth\<close>
  returns exactly the stored transactions whose date lies, as a string, between
  \<open>m @ ''-01''\<close> and \<open>m @ ''-31''\<close>. A transaction dated 2024-02-29 is returned for 2024-02
  and not for 2024-03, and one dated 2024-04-30 is returned for 2024-04.
\<close>

theorem month_membership:
  "(\<exists>xs. getTransactionsByMonth healthy m s = Resolved xs
      \<and> mset xs = filter_mset (\<lambda>t. m @ ''-01'' \<le> date t \<and> date t \<le> m @ ''-31'')
                     (mset (tx_store s)))
   \<and> (t \<in> set (tx_store s) \<and> date t = ''2024-02-29'' \<longrightarrow>
       (\<exists>xs ys. getTransactionsByMonth healthy ''2024-02'' s = Resolved xs \<and> t \<in> set xs
            \<and> getTransactionsByMonth healthy ''2024-03'' s = Resolved ys \<and> t \<notin> set ys))
   \<and> (t \<in> set (tx_store s) \<and> date t = ''2024-04-30'' \<longrightarrow>
       (\<exists>xs. getTransactionsByMonth healthy ''2024-04'' s = Resolved xs \<and> t \<in> set xs))"
proof -
  have set_month: "set (sort_by compareTx (index_getAll (k @ ''-01'') (k @ ''-31'') (tx_store s)))
      = {t \<in> set (tx_store s). in_month k t}" for k
    using mset_month [of k "tx_store s", THEN arg_cong, of set_mset] by simp
  have "in_month ''2024-02'' t" "\<not> in_month ''2024-03'' t" if "date t = ''2024-02-29''"
    using that by (simp_all add: in_month_def)
  moreover have "in_month ''2024-04'' t" if "date t = ''2024-04-30''"
    using that by (simp add: in_month_def)
  moreover note set_month [of "''2024-02''", simplified] set_month [of "''2024-03''", simplified]
    set_month [of "''2024-04''", simplified]
  ultimately show ?thesis
    by (simp add: getTransactionsByMonth_healthy mset_sort_by mset_index_getAll)
qed

theorem month_membership_witness:
  "tx_leap \<in> set (tx_store boundary_db) \<and> date tx_leap = ''2024-02-29''
   \<and> (\<exists>xs ys. getTransactionsByMonth healthy ''2024-02'' boundary_db = Resolved xs
          \<and> tx_leap \<in> set xs
          \<and> getTransactionsByMonth healthy ''2024-03'' boundary_db = Resolved ys
          \<and> tx_leap \<notin> set ys)
   \<and> tx_april \<in> set (tx_store boundary_db) \<and> date tx_april = ''2024-04-30''
   \<and> (\<exists>xs. getTransactionsByMonth healthy ''2024-04'' boundary_db = Resolved xs
          \<and> tx_april \<in> set xs)"
proof -
  have leap: "tx_leap \<in> set (tx_store boundary_db)" "date tx_leap = ''2024-02-29''"
    by (simp_all add: boundary_db_def tx_leap_def sample_tx_def)
  have april: "tx_april \<in> set (tx_store boundary_db)" "date tx_april = ''2024-04-30''"
    by (simp_all add: boundary_db_def tx_april_def sample_tx_def)
  show ?thesis
    using leap april month_membership [of "''2024-02''" boundary_db tx_leap]
      month_membership [of "''2024-04''" boundary_db tx_april]
    by blast
qed

section \<open>Negative budget limits\<close>

text \<open>
  C8, as the code has it. The guard is in \<open>handleSave\<close>: for a limit below 0, and for
  \<open>NaN\<close>, it does not call the store and raises nothing, so the database is the one
  before, whatever the engine; for a limit of 0 or more it upserts the budget record of the
  month (on a healthy engine). \<open>setMonthlyBudget\<close> itself checks nothing and upserts the
  record it is given, whatever its limit.
\<close>

theorem budget_limit_guard:
  "(v < 0 \<longrightarrow> handleSave eng m (Num v) s = (None, s))
   \<and> handleSave eng m NaN s = (None, s)
   \<and> (0 \<le> v \<longrightarrow>
       (\<exists>s'. handleSave healthy m (Num v) s = (Some (Resolved ()), s')
          \<and> set (budget_store s')
              = insert \<lparr>month = m, limit = v\<rparr> {b \<in> set (budget_store s). month b \<noteq> m}
          \<and> tx_store s' = tx_store s))
   \<and> (\<exists>s'. setMonthlyBudget healthy \<lparr>month = m, limit = v\<rparr> s = (Resolved (), s')
          \<and> set (budget_store s')
              = insert \<lparr>month = m, limit = v\<rparr> {b \<in> set (budget_store s). month b \<noteq> m})"
  by (simp add: handleSave_def handleUpdateLimit_def setMonthlyBudget_healthy set_os_put)

theorem budget_limit_guard_witness:
  "(- 50 :: real) < 0
   \<and> handleSave healthy ''2024-05'' (Num (- 50)) sample_db = (None, sample_db)
   \<and> handleSave healthy ''2024-05'' NaN sample_db = (None, sample_db)
   \<and> (0 :: real) \<le> 900
   \<and> (\<exists>s'. handleSave healthy ''2024-05'' (Num 900) sample_db = (Some (Resolved ()), s')
          \<and> set (budget_store s')
              = insert \<lparr>month = ''2024-05'', limit = 900\<rparr>
                  {b \<in> set (budget_store sample_db). month b \<noteq> ''2024-05''}
          \<and> tx_store s' = tx_store sample_db)"
  using budget_limit_guard [of "- 50" healthy "''2024-05''" sample_db]
    budget_limit_guard [of 900 healthy "''2024-05''" sample_db]
  by simp

text \<open>
  C8 does not hold of \<open>setMonthlyBudget\<close> itself: a negative limit handed to it is stored
  and the promise resolves. In \<open>handleSave\<close> the same limit is dropped without any error.
\<close>

theorem setMonthlyBudget_counterexample:
  "setMonthlyBudget healthy \<lparr>month = ''2024-05'', limit = - 1\<rparr> empty_db
     = (Resolved (), \<lparr>tx_store = [], budget_store = [\<lparr>month = ''2024-05'', limit = - 1\<rparr>]\<rparr>)
   \<and> handleSave healthy ''2024-05'' (Num (- 1)) empty_db = (None, empty_db)"
  by (simp add: setMonthlyBudget_healthy os_put_def os_delete_def empty_db_def handleSave_def)


section \<open>Engine errors during export\<close>

text \<open>
  C9 at the export. When the \<^verbatim>\<open>getAll\<close> request on either store fails, the promise of
  \<open>exportDatabase\<close> is never settled: the error is neither surfaced nor answered. The month
  query, by contrast, rejects with the error of its failed request
  (\<open>getTransactionsByMonth_request_error\<close>).
\<close>

theorem exportDatabase_read_error_pending:
  "exportDatabase \<lparr>open_error = None, request_error = [STORE_TRANSACTIONS \<mapsto> e]\<rparr> now s
     = Pending
   \<and> exportDatabase \<lparr>open_error = None, request_error = [STORE_BUDGETS \<mapsto> e]\<rparr> now s
     = Pending"
  by (simp add: exportDatabase_def openDB_def getStoreData_def request_def
      STORE_TRANSACTIONS_def STORE_BUDGETS_def)

end
